theory Spec2Isabelle
  imports Main "HOL-Library.Sublist"
begin

section \<open>The symbol-renaming header \<^verbatim>\<open>prefix_symbols_asm.h\<close>\<close>

text \<open>
  The header consists of object-like macro definitions \<^verbatim>\<open>#define OLD NEW\<close>, in two
  branches selected by \<^verbatim>\<open>#if defined(__APPLE__)\<close>. A macro definition is a renaming
  rule: the pair of the canonical symbol name and the exported symbol name. Each branch is
  the list of its rules, in the order of the file.
\<close>

datatype platform = Apple | NonApple

type_synonym rule = "string \<times> string"

text \<open>The branch taken when \<^verbatim>\<open>__APPLE__\<close> is defined (lines 6 to 167).\<close>

definition apple_branch :: "(string \<times> string) list" where
  "apple_branch = [
    (''_ecp_nistz256_point_double'', ''_p256_point_double''),
    (''_ecp_nistz256_point_add'', ''_p256_point_add''),
    (''_ecp_nistz256_point_add_affine'', ''_p256_point_add_affine''),
    (''_ecp_nistz256_ord_mul_mont'', ''_p256_scalar_mul_mont''),
    (''_ecp_nistz256_ord_sqr_mont'', ''_p256_scalar_sqr_rep_mont''),
    (''_ecp_nistz256_mul_mont'', ''_p256_mul_mont''),
    (''_ecp_nistz256_sqr_mont'', ''_p256_sqr_mont''),
    (''_adx_bmi2_available'', ''_ring_core_0_17_14__adx_bmi2_available''),
    (''_avx2_available'', ''_ring_core_0_17_14__avx2_available''),
    (''_CRYPTO_memcmp'', ''_ring_core_0_17_14__CRYPTO_memcmp''),
    (''_CRYPTO_poly1305_finish'', ''_ring_core_0_17_14__CRYPTO_poly1305_finish''),
    (''_CRYPTO_poly1305_finish_neon'', ''_ring_core_0_17_14__CRYPTO_poly1305_finish_neon''),
    (''_CRYPTO_poly1305_init'', ''_ring_core_0_17_14__CRYPTO_poly1305_init''),
    (''_CRYPTO_poly1305_init_neon'', ''_ring_core_0_17_14__CRYPTO_poly1305_init_neon''),
    (''_CRYPTO_poly1305_update'', ''_ring_core_0_17_14__CRYPTO_poly1305_update''),
    (''_CRYPTO_poly1305_update_neon'', ''_ring_core_0_17_14__CRYPTO_poly1305_update_neon''),
    (''_ChaCha20_ctr32'', ''_ring_core_0_17_14__ChaCha20_ctr32''),
    (''_ChaCha20_ctr32_avx2'', ''_ring_core_0_17_14__ChaCha20_ctr32_avx2''),
    (''_ChaCha20_ctr32_neon'', ''_ring_core_0_17_14__ChaCha20_ctr32_neon''),
    (''_ChaCha20_ctr32_nohw'', ''_ring_core_0_17_14__ChaCha20_ctr32_nohw''),
    (''_ChaCha20_ctr32_ssse3'', ''_ring_core_0_17_14__ChaCha20_ctr32_ssse3''),
    (''_ChaCha20_ctr32_ssse3_4x'', ''_ring_core_0_17_14__ChaCha20_ctr32_ssse3_4x''),
    (''_LIMB_is_zero'', ''_ring_core_0_17_14__LIMB_is_zero''),
    (''_LIMBS_add_mod'', ''_ring_core_0_17_14__LIMBS_add_mod''),
    (''_LIMBS_are_zero'', ''_ring_core_0_17_14__LIMBS_are_zero''),
    (''_LIMBS_equal'', ''_ring_core_0_17_14__LIMBS_equal''),
    (''_LIMBS_less_than'', ''_ring_core_0_17_14__LIMBS_less_than''),
    (''_LIMBS_reduce_once'', ''_ring_core_0_17_14__LIMBS_reduce_once''),
    (''_LIMBS_select_512_32'', ''_ring_core_0_17_14__LIMBS_select_512_32''),
    (''_LIMBS_shl_mod'', ''_ring_core_0_17_14__LIMBS_shl_mod''),
    (''_LIMBS_sub_mod'', ''_ring_core_0_17_14__LIMBS_sub_mod''),
    (''_LIMBS_window5_split_window'', ''_ring_core_0_17_14__LIMBS_window5_split_window''),
    (''_LIMBS_window5_unsplit_window'', ''_ring_core_0_17_14__LIMBS_window5_unsplit_window''),
    (''_LIMB_shr'', ''_ring_core_0_17_14__LIMB_shr''),
    (''_OPENSSL_cpuid_setup'', ''_ring_core_0_17_14__OPENSSL_cpuid_setup''),
    (''_aes_gcm_dec_kernel'', ''_ring_core_0_17_14__aes_gcm_dec_kernel''),
    (''_aes_gcm_dec_update_vaes_avx2'', ''_ring_core_0_17_14__aes_gcm_dec_update_vaes_avx2''),
    (''_aes_gcm_enc_kernel'', ''_ring_core_0_17_14__aes_gcm_enc_kernel''),
    (''_aes_gcm_enc_update_vaes_avx2'', ''_ring_core_0_17_14__aes_gcm_enc_update_vaes_avx2''),
    (''_aes_hw_ctr32_encrypt_blocks'', ''_ring_core_0_17_14__aes_hw_ctr32_encrypt_blocks''),
    (''_aes_hw_set_encrypt_key'', ''_ring_core_0_17_14__aes_hw_set_encrypt_key''),
    (''_aes_hw_set_encrypt_key_alt'', ''_ring_core_0_17_14__aes_hw_set_encrypt_key_alt''),
    (''_aes_hw_set_encrypt_key_base'', ''_ring_core_0_17_14__aes_hw_set_encrypt_key_base''),
    (''_aes_nohw_ctr32_encrypt_blocks'', ''_ring_core_0_17_14__aes_nohw_ctr32_encrypt_blocks''),
    (''_aes_nohw_encrypt'', ''_ring_core_0_17_14__aes_nohw_encrypt''),
    (''_aes_nohw_set_encrypt_key'', ''_ring_core_0_17_14__aes_nohw_set_encrypt_key''),
    (''_aesni_gcm_decrypt'', ''_ring_core_0_17_14__aesni_gcm_decrypt''),
    (''_aesni_gcm_encrypt'', ''_ring_core_0_17_14__aesni_gcm_encrypt''),
    (''_bn_from_montgomery_in_place'', ''_ring_core_0_17_14__bn_from_montgomery_in_place''),
    (''_bn_gather5'', ''_ring_core_0_17_14__bn_gather5''),
    (''_bn_mul_mont'', ''_ring_core_0_17_14__bn_mul_mont''),
    (''_bn_mul_mont_nohw'', ''_ring_core_0_17_14__bn_mul_mont_nohw''),
    (''_bn_mul4x_mont'', ''_ring_core_0_17_14__bn_mul4x_mont''),
    (''_bn_mulx4x_mont'', ''_ring_core_0_17_14__bn_mulx4x_mont''),
    (''_bn_mul8x_mont_neon'', ''_ring_core_0_17_14__bn_mul8x_mont_neon''),
    (''_bn_mul4x_mont_gather5'', ''_ring_core_0_17_14__bn_mul4x_mont_gather5''),
    (''_bn_mulx4x_mont_gather5'', ''_ring_core_0_17_14__bn_mulx4x_mont_gather5''),
    (''_bn_neg_inv_mod_r_u64'', ''_ring_core_0_17_14__bn_neg_inv_mod_r_u64''),
    (''_bn_power5_nohw'', ''_ring_core_0_17_14__bn_power5_nohw''),
    (''_bn_powerx5'', ''_ring_core_0_17_14__bn_powerx5''),
    (''_bn_scatter5'', ''_ring_core_0_17_14__bn_scatter5''),
    (''_bn_sqr8x_internal'', ''_ring_core_0_17_14__bn_sqr8x_internal''),
    (''_bn_sqr8x_mont'', ''_ring_core_0_17_14__bn_sqr8x_mont''),
    (''_bn_sqrx8x_internal'', ''_ring_core_0_17_14__bn_sqrx8x_internal''),
    (''_bsaes_ctr32_encrypt_blocks'', ''_ring_core_0_17_14__bsaes_ctr32_encrypt_blocks''),
    (''_bssl_constant_time_test_conditional_memcpy'', ''_ring_core_0_17_14__bssl_constant_time_test_conditional_memcpy''),
    (''_bssl_constant_time_test_conditional_memxor'', ''_ring_core_0_17_14__bssl_constant_time_test_conditional_memxor''),
    (''_bssl_constant_time_test_main'', ''_ring_core_0_17_14__bssl_constant_time_test_main''),
    (''_chacha20_poly1305_open'', ''_ring_core_0_17_14__chacha20_poly1305_open''),
    (''_chacha20_poly1305_open_avx2'', ''_ring_core_0_17_14__chacha20_poly1305_open_avx2''),
    (''_chacha20_poly1305_open_sse41'', ''_ring_core_0_17_14__chacha20_poly1305_open_sse41''),
    (''_chacha20_poly1305_seal'', ''_ring_core_0_17_14__chacha20_poly1305_seal''),
    (''_chacha20_poly1305_seal_avx2'', ''_ring_core_0_17_14__chacha20_poly1305_seal_avx2''),
    (''_chacha20_poly1305_seal_sse41'', ''_ring_core_0_17_14__chacha20_poly1305_seal_sse41''),
    (''_ecp_nistz256_mul_mont_adx'', ''_ring_core_0_17_14__ecp_nistz256_mul_mont_adx''),
    (''_ecp_nistz256_mul_mont_nohw'', ''_ring_core_0_17_14__ecp_nistz256_mul_mont_nohw''),
    (''_ecp_nistz256_ord_mul_mont_adx'', ''_ring_core_0_17_14__ecp_nistz256_ord_mul_mont_adx''),
    (''_ecp_nistz256_ord_mul_mont_nohw'', ''_ring_core_0_17_14__ecp_nistz256_ord_mul_mont_nohw''),
    (''_ecp_nistz256_ord_sqr_mont_adx'', ''_ring_core_0_17_14__ecp_nistz256_ord_sqr_mont_adx''),
    (''_ecp_nistz256_ord_sqr_mont_nohw'', ''_ring_core_0_17_14__ecp_nistz256_ord_sqr_mont_nohw''),
    (''_ecp_nistz256_point_add_adx'', ''_ring_core_0_17_14__ecp_nistz256_point_add_adx''),
    (''_ecp_nistz256_point_add_nohw'', ''_ring_core_0_17_14__ecp_nistz256_point_add_nohw''),
    (''_ecp_nistz256_point_add_affine_adx'', ''_ring_core_0_17_14__ecp_nistz256_point_add_affine_adx''),
    (''_ecp_nistz256_point_add_affine_nohw'', ''_ring_core_0_17_14__ecp_nistz256_point_add_affine_nohw''),
    (''_ecp_nistz256_point_double_adx'', ''_ring_core_0_17_14__ecp_nistz256_point_double_adx''),
    (''_ecp_nistz256_point_double_nohw'', ''_ring_core_0_17_14__ecp_nistz256_point_double_nohw''),
    (''_ecp_nistz256_select_w5_avx2'', ''_ring_core_0_17_14__ecp_nistz256_select_w5_avx2''),
    (''_ecp_nistz256_select_w5_nohw'', ''_ring_core_0_17_14__ecp_nistz256_select_w5_nohw''),
    (''_ecp_nistz256_select_w7_avx2'', ''_ring_core_0_17_14__ecp_nistz256_select_w7_avx2''),
    (''_ecp_nistz256_select_w7_nohw'', ''_ring_core_0_17_14__ecp_nistz256_select_w7_nohw''),
    (''_ecp_nistz256_sqr_mont_adx'', ''_ring_core_0_17_14__ecp_nistz256_sqr_mont_adx''),
    (''_ecp_nistz256_sqr_mont_nohw'', ''_ring_core_0_17_14__ecp_nistz256_sqr_mont_nohw''),
    (''_fiat_curve25519_adx_mul'', ''_ring_core_0_17_14__fiat_curve25519_adx_mul''),
    (''_fiat_curve25519_adx_square'', ''_ring_core_0_17_14__fiat_curve25519_adx_square''),
    (''_gcm_ghash_avx'', ''_ring_core_0_17_14__gcm_ghash_avx''),
    (''_gcm_ghash_clmul'', ''_ring_core_0_17_14__gcm_ghash_clmul''),
    (''_gcm_ghash_neon'', ''_ring_core_0_17_14__gcm_ghash_neon''),
    (''_gcm_ghash_vpclmulqdq_avx2_1'', ''_ring_core_0_17_14__gcm_ghash_vpclmulqdq_avx2_1''),
    (''_gcm_gmult_clmul'', ''_ring_core_0_17_14__gcm_gmult_clmul''),
    (''_gcm_gmult_neon'', ''_ring_core_0_17_14__gcm_gmult_neon''),
    (''_gcm_init_avx'', ''_ring_core_0_17_14__gcm_init_avx''),
    (''_gcm_init_clmul'', ''_ring_core_0_17_14__gcm_init_clmul''),
    (''_gcm_init_neon'', ''_ring_core_0_17_14__gcm_init_neon''),
    (''_gcm_init_vpclmulqdq_avx2'', ''_ring_core_0_17_14__gcm_init_vpclmulqdq_avx2''),
    (''_k25519Precomp'', ''_ring_core_0_17_14__k25519Precomp''),
    (''_limbs_mul_add_limb'', ''_ring_core_0_17_14__limbs_mul_add_limb''),
    (''_little_endian_bytes_from_scalar'', ''_ring_core_0_17_14__little_endian_bytes_from_scalar''),
    (''_ecp_nistz256_neg'', ''_ring_core_0_17_14__ecp_nistz256_neg''),
    (''_ecp_nistz256_select_w5'', ''_ring_core_0_17_14__ecp_nistz256_select_w5''),
    (''_ecp_nistz256_select_w7'', ''_ring_core_0_17_14__ecp_nistz256_select_w7''),
    (''_neon_available'', ''_ring_core_0_17_14__neon_available''),
    (''_p256_mul_mont'', ''_ring_core_0_17_14__p256_mul_mont''),
    (''_p256_point_add'', ''_ring_core_0_17_14__p256_point_add''),
    (''_p256_point_add_affine'', ''_ring_core_0_17_14__p256_point_add_affine''),
    (''_p256_point_double'', ''_ring_core_0_17_14__p256_point_double''),
    (''_p256_point_mul'', ''_ring_core_0_17_14__p256_point_mul''),
    (''_p256_point_mul_base'', ''_ring_core_0_17_14__p256_point_mul_base''),
    (''_p256_point_mul_base_vartime'', ''_ring_core_0_17_14__p256_point_mul_base_vartime''),
    (''_p256_scalar_mul_mont'', ''_ring_core_0_17_14__p256_scalar_mul_mont''),
    (''_p256_scalar_sqr_rep_mont'', ''_ring_core_0_17_14__p256_scalar_sqr_rep_mont''),
    (''_p256_sqr_mont'', ''_ring_core_0_17_14__p256_sqr_mont''),
    (''_p384_elem_div_by_2'', ''_ring_core_0_17_14__p384_elem_div_by_2''),
    (''_p384_elem_mul_mont'', ''_ring_core_0_17_14__p384_elem_mul_mont''),
    (''_p384_elem_neg'', ''_ring_core_0_17_14__p384_elem_neg''),
    (''_p384_elem_sub'', ''_ring_core_0_17_14__p384_elem_sub''),
    (''_p384_point_add'', ''_ring_core_0_17_14__p384_point_add''),
    (''_p384_point_double'', ''_ring_core_0_17_14__p384_point_double''),
    (''_p384_point_mul'', ''_ring_core_0_17_14__p384_point_mul''),
    (''_p384_scalar_mul_mont'', ''_ring_core_0_17_14__p384_scalar_mul_mont''),
    (''_openssl_poly1305_neon2_addmulmod'', ''_ring_core_0_17_14__openssl_poly1305_neon2_addmulmod''),
    (''_openssl_poly1305_neon2_blocks'', ''_ring_core_0_17_14__openssl_poly1305_neon2_blocks''),
    (''_sha256_block_data_order'', ''_ring_core_0_17_14__sha256_block_data_order''),
    (''_sha256_block_data_order_avx'', ''_ring_core_0_17_14__sha256_block_data_order_avx''),
    (''_sha256_block_data_order_ssse3'', ''_ring_core_0_17_14__sha256_block_data_order_ssse3''),
    (''_sha256_block_data_order_hw'', ''_ring_core_0_17_14__sha256_block_data_order_hw''),
    (''_sha256_block_data_order_neon'', ''_ring_core_0_17_14__sha256_block_data_order_neon''),
    (''_sha256_block_data_order_nohw'', ''_ring_core_0_17_14__sha256_block_data_order_nohw''),
    (''_sha512_block_data_order'', ''_ring_core_0_17_14__sha512_block_data_order''),
    (''_sha512_block_data_order_avx'', ''_ring_core_0_17_14__sha512_block_data_order_avx''),
    (''_sha512_block_data_order_hw'', ''_ring_core_0_17_14__sha512_block_data_order_hw''),
    (''_sha512_block_data_order_neon'', ''_ring_core_0_17_14__sha512_block_data_order_neon''),
    (''_sha512_block_data_order_nohw'', ''_ring_core_0_17_14__sha512_block_data_order_nohw''),
    (''_vpaes_ctr32_encrypt_blocks'', ''_ring_core_0_17_14__vpaes_ctr32_encrypt_blocks''),
    (''_vpaes_encrypt'', ''_ring_core_0_17_14__vpaes_encrypt''),
    (''_vpaes_encrypt_key_to_bsaes'', ''_ring_core_0_17_14__vpaes_encrypt_key_to_bsaes''),
    (''_vpaes_set_encrypt_key'', ''_ring_core_0_17_14__vpaes_set_encrypt_key''),
    (''_x25519_NEON'', ''_ring_core_0_17_14__x25519_NEON''),
    (''_x25519_fe_invert'', ''_ring_core_0_17_14__x25519_fe_invert''),
    (''_x25519_fe_isnegative'', ''_ring_core_0_17_14__x25519_fe_isnegative''),
    (''_x25519_fe_mul_ttt'', ''_ring_core_0_17_14__x25519_fe_mul_ttt''),
    (''_x25519_fe_neg'', ''_ring_core_0_17_14__x25519_fe_neg''),
    (''_x25519_fe_tobytes'', ''_ring_core_0_17_14__x25519_fe_tobytes''),
    (''_x25519_ge_double_scalarmult_vartime'', ''_ring_core_0_17_14__x25519_ge_double_scalarmult_vartime''),
    (''_x25519_ge_frombytes_vartime'', ''_ring_core_0_17_14__x25519_ge_frombytes_vartime''),
    (''_x25519_ge_scalarmult_base'', ''_ring_core_0_17_14__x25519_ge_scalarmult_base''),
    (''_x25519_ge_scalarmult_base_adx'', ''_ring_core_0_17_14__x25519_ge_scalarmult_base_adx''),
    (''_x25519_public_from_private_generic_masked'', ''_ring_core_0_17_14__x25519_public_from_private_generic_masked''),
    (''_x25519_sc_mask'', ''_ring_core_0_17_14__x25519_sc_mask''),
    (''_x25519_sc_muladd'', ''_ring_core_0_17_14__x25519_sc_muladd''),
    (''_x25519_sc_reduce'', ''_ring_core_0_17_14__x25519_sc_reduce''),
    (''_x25519_scalar_mult_adx'', ''_ring_core_0_17_14__x25519_scalar_mult_adx''),
    (''_x25519_scalar_mult_generic_masked'', ''_ring_core_0_17_14__x25519_scalar_mult_generic_masked'')]"

text \<open>The \<^verbatim>\<open>#else\<close> branch (lines 170 to 331).\<close>

definition non_apple_branch :: "(string \<times> string) list" where
  "non_apple_branch = [
    (''ecp_nistz256_point_double'', ''p256_point_double''),
    (''ecp_nistz256_point_add'', ''p256_point_add''),
    (''ecp_nistz256_point_add_affine'', ''p256_point_add_affine''),
    (''ecp_nistz256_ord_mul_mont'', ''p256_scalar_mul_mont''),
    (''ecp_nistz256_ord_sqr_mont'', ''p256_scalar_sqr_rep_mont''),
    (''ecp_nistz256_mul_mont'', ''p256_mul_mont''),
    (''ecp_nistz256_sqr_mont'', ''p256_sqr_mont''),
    (''adx_bmi2_available'', ''ring_core_0_17_14__adx_bmi2_available''),
    (''avx2_available'', ''ring_core_0_17_14__avx2_available''),
    (''CRYPTO_memcmp'', ''ring_core_0_17_14__CRYPTO_memcmp''),
    (''CRYPTO_poly1305_finish'', ''ring_core_0_17_14__CRYPTO_poly1305_finish''),
    (''CRYPTO_poly1305_finish_neon'', ''ring_core_0_17_14__CRYPTO_poly1305_finish_neon''),
    (''CRYPTO_poly1305_init'', ''ring_core_0_17_14__CRYPTO_poly1305_init''),
    (''CRYPTO_poly1305_init_neon'', ''ring_core_0_17_14__CRYPTO_poly1305_init_neon''),
    (''CRYPTO_poly1305_update'', ''ring_core_0_17_14__CRYPTO_poly1305_update''),
    (''CRYPTO_poly1305_update_neon'', ''ring_core_0_17_14__CRYPTO_poly1305_update_neon''),
    (''ChaCha20_ctr32'', ''ring_core_0_17_14__ChaCha20_ctr32''),
    (''ChaCha20_ctr32_avx2'', ''ring_core_0_17_14__ChaCha20_ctr32_avx2''),
    (''ChaCha20_ctr32_neon'', ''ring_core_0_17_14__ChaCha20_ctr32_neon''),
    (''ChaCha20_ctr32_nohw'', ''ring_core_0_17_14__ChaCha20_ctr32_nohw''),
    (''ChaCha20_ctr32_ssse3'', ''ring_core_0_17_14__ChaCha20_ctr32_ssse3''),
    (''ChaCha20_ctr32_ssse3_4x'', ''ring_core_0_17_14__ChaCha20_ctr32_ssse3_4x''),
    (''LIMB_is_zero'', ''ring_core_0_17_14__LIMB_is_zero''),
    (''LIMBS_add_mod'', ''ring_core_0_17_14__LIMBS_add_mod''),
    (''LIMBS_are_zero'', ''ring_core_0_17_14__LIMBS_are_zero''),
    (''LIMBS_equal'', ''ring_core_0_17_14__LIMBS_equal''),
    (''LIMBS_less_than'', ''ring_core_0_17_14__LIMBS_less_than''),
    (''LIMBS_reduce_once'', ''ring_core_0_17_14__LIMBS_reduce_once''),
    (''LIMBS_select_512_32'', ''ring_core_0_17_14__LIMBS_select_512_32''),
    (''LIMBS_shl_mod'', ''ring_core_0_17_14__LIMBS_shl_mod''),
    (''LIMBS_sub_mod'', ''ring_core_0_17_14__LIMBS_sub_mod''),
    (''LIMBS_window5_split_window'', ''ring_core_0_17_14__LIMBS_window5_split_window''),
    (''LIMBS_window5_unsplit_window'', ''ring_core_0_17_14__LIMBS_window5_unsplit_window''),
    (''LIMB_shr'', ''ring_core_0_17_14__LIMB_shr''),
    (''OPENSSL_cpuid_setup'', ''ring_core_0_17_14__OPENSSL_cpuid_setup''),
    (''aes_gcm_dec_kernel'', ''ring_core_0_17_14__aes_gcm_dec_kernel''),
    (''aes_gcm_dec_update_vaes_avx2'', ''ring_core_0_17_14__aes_gcm_dec_update_vaes_avx2''),
    (''aes_gcm_enc_kernel'', ''ring_core_0_17_14__aes_gcm_enc_kernel''),
    (''aes_gcm_enc_update_vaes_avx2'', ''ring_core_0_17_14__aes_gcm_enc_update_vaes_avx2''),
    (''aes_hw_ctr32_encrypt_blocks'', ''ring_core_0_17_14__aes_hw_ctr32_encrypt_blocks''),
    (''aes_hw_set_encrypt_key'', ''ring_core_0_17_14__aes_hw_set_encrypt_key''),
    (''aes_hw_set_encrypt_key_alt'', ''ring_core_0_17_14__aes_hw_set_encrypt_key_alt''),
    (''aes_hw_set_encrypt_key_base'', ''ring_core_0_17_14__aes_hw_set_encrypt_key_base''),
    (''aes_nohw_ctr32_encrypt_blocks'', ''ring_core_0_17_14__aes_nohw_ctr32_encrypt_blocks''),
    (''aes_nohw_encrypt'', ''ring_core_0_17_14__aes_nohw_encrypt''),
    (''aes_nohw_set_encrypt_key'', ''ring_core_0_17_14__aes_nohw_set_encrypt_key''),
    (''aesni_gcm_decrypt'', ''ring_core_0_17_14__aesni_gcm_decrypt''),
    (''aesni_gcm_encrypt'', ''ring_core_0_17_14__aesni_gcm_encrypt''),
    (''bn_from_montgomery_in_place'', ''ring_core_0_17_14__bn_from_montgomery_in_place''),
    (''bn_gather5'', ''ring_core_0_17_14__bn_gather5''),
    (''bn_mul_mont'', ''ring_core_0_17_14__bn_mul_mont''),
    (''bn_mul_mont_nohw'', ''ring_core_0_17_14__bn_mul_mont_nohw''),
    (''bn_mul4x_mont'', ''ring_core_0_17_14__bn_mul4x_mont''),
    (''bn_mulx4x_mont'', ''ring_core_0_17_14__bn_mulx4x_mont''),
    (''bn_mul8x_mont_neon'', ''ring_core_0_17_14__bn_mul8x_mont_neon''),
    (''bn_mul4x_mont_gather5'', ''ring_core_0_17_14__bn_mul4x_mont_gather5''),
    (''bn_mulx4x_mont_gather5'', ''ring_core_0_17_14__bn_mulx4x_mont_gather5''),
    (''bn_neg_inv_mod_r_u64'', ''ring_core_0_17_14__bn_neg_inv_mod_r_u64''),
    (''bn_power5_nohw'', ''ring_core_0_17_14__bn_power5_nohw''),
    (''bn_powerx5'', ''ring_core_0_17_14__bn_powerx5''),
    (''bn_scatter5'', ''ring_core_0_17_14__bn_scatter5''),
    (''bn_sqr8x_internal'', ''ring_core_0_17_14__bn_sqr8x_internal''),
    (''bn_sqr8x_mont'', ''ring_core_0_17_14__bn_sqr8x_mont''),
    (''bn_sqrx8x_internal'', ''ring_core_0_17_14__bn_sqrx8x_internal''),
    (''bsaes_ctr32_encrypt_blocks'', ''ring_core_0_17_14__bsaes_ctr32_encrypt_blocks''),
    (''bssl_constant_time_test_conditional_memcpy'', ''ring_core_0_17_14__bssl_constant_time_test_conditional_memcpy''),
    (''bssl_constant_time_test_conditional_memxor'', ''ring_core_0_17_14__bssl_constant_time_test_conditional_memxor''),
    (''bssl_constant_time_test_main'', ''ring_core_0_17_14__bssl_constant_time_test_main''),
    (''chacha20_poly1305_open'', ''ring_core_0_17_14__chacha20_poly1305_open''),
    (''chacha20_poly1305_open_avx2'', ''ring_core_0_17_14__chacha20_poly1305_open_avx2''),
    (''chacha20_poly1305_open_sse41'', ''ring_core_0_17_14__chacha20_poly1305_open_sse41''),
    (''chacha20_poly1305_seal'', ''ring_core_0_17_14__chacha20_poly1305_seal''),
    (''chacha20_poly1305_seal_avx2'', ''ring_core_0_17_14__chacha20_poly1305_seal_avx2''),
    (''chacha20_poly1305_seal_sse41'', ''ring_core_0_17_14__chacha20_poly1305_seal_sse41''),
    (''ecp_nistz256_mul_mont_adx'', ''ring_core_0_17_14__ecp_nistz256_mul_mont_adx''),
    (''ecp_nistz256_mul_mont_nohw'', ''ring_core_0_17_14__ecp_nistz256_mul_mont_nohw''),
    (''ecp_nistz256_ord_mul_mont_adx'', ''ring_core_0_17_14__ecp_nistz256_ord_mul_mont_adx''),
    (''ecp_nistz256_ord_mul_mont_nohw'', ''ring_core_0_17_14__ecp_nistz256_ord_mul_mont_nohw''),
    (''ecp_nistz256_ord_sqr_mont_adx'', ''ring_core_0_17_14__ecp_nistz256_ord_sqr_mont_adx''),
    (''ecp_nistz256_ord_sqr_mont_nohw'', ''ring_core_0_17_14__ecp_nistz256_ord_sqr_mont_nohw''),
    (''ecp_nistz256_point_add_adx'', ''ring_core_0_17_14__ecp_nistz256_point_add_adx''),
    (''ecp_nistz256_point_add_nohw'', ''ring_core_0_17_14__ecp_nistz256_point_add_nohw''),
    (''ecp_nistz256_point_add_affine_adx'', ''ring_core_0_17_14__ecp_nistz256_point_add_affine_adx''),
    (''ecp_nistz256_point_add_affine_nohw'', ''ring_core_0_17_14__ecp_nistz256_point_add_affine_nohw''),
    (''ecp_nistz256_point_double_adx'', ''ring_core_0_17_14__ecp_nistz256_point_double_adx''),
    (''ecp_nistz256_point_double_nohw'', ''ring_core_0_17_14__ecp_nistz256_point_double_nohw''),
    (''ecp_nistz256_select_w5_avx2'', ''ring_core_0_17_14__ecp_nistz256_select_w5_avx2''),
    (''ecp_nistz256_select_w5_nohw'', ''ring_core_0_17_14__ecp_nistz256_select_w5_nohw''),
    (''ecp_nistz256_select_w7_avx2'', ''ring_core_0_17_14__ecp_nistz256_select_w7_avx2''),
    (''ecp_nistz256_select_w7_nohw'', ''ring_core_0_17_14__ecp_nistz256_select_w7_nohw''),
    (''ecp_nistz256_sqr_mont_adx'', ''ring_core_0_17_14__ecp_nistz256_sqr_mont_adx''),
    (''ecp_nistz256_sqr_mont_nohw'', ''ring_core_0_17_14__ecp_nistz256_sqr_mont_nohw''),
    (''fiat_curve25519_adx_mul'', ''ring_core_0_17_14__fiat_curve25519_adx_mul''),
    (''fiat_curve25519_adx_square'', ''ring_core_0_17_14__fiat_curve25519_adx_square''),
    (''gcm_ghash_avx'', ''ring_core_0_17_14__gcm_ghash_avx''),
    (''gcm_ghash_clmul'', ''ring_core_0_17_14__gcm_ghash_clmul''),
    (''gcm_ghash_neon'', ''ring_core_0_17_14__gcm_ghash_neon''),
    (''gcm_ghash_vpclmulqdq_avx2_1'', ''ring_core_0_17_14__gcm_ghash_vpclmulqdq_avx2_1''),
    (''gcm_gmult_clmul'', ''ring_core_0_17_14__gcm_gmult_clmul''),
    (''gcm_gmult_neon'', ''ring_core_0_17_14__gcm_gmult_neon''),
    (''gcm_init_avx'', ''ring_core_0_17_14__gcm_init_avx''),
    (''gcm_init_clmul'', ''ring_core_0_17_14__gcm_init_clmul''),
    (''gcm_init_neon'', ''ring_core_0_17_14__gcm_init_neon''),
    (''gcm_init_vpclmulqdq_avx2'', ''ring_core_0_17_14__gcm_init_vpclmulqdq_avx2''),
    (''k25519Precomp'', ''ring_core_0_17_14__k25519Precomp''),
    (''limbs_mul_add_limb'', ''ring_core_0_17_14__limbs_mul_add_limb''),
    (''little_endian_bytes_from_scalar'', ''ring_core_0_17_14__little_endian_bytes_from_scalar''),
    (''ecp_nistz256_neg'', ''ring_core_0_17_14__ecp_nistz256_neg''),
    (''ecp_nistz256_select_w5'', ''ring_core_0_17_14__ecp_nistz256_select_w5''),
    (''ecp_nistz256_select_w7'', ''ring_core_0_17_14__ecp_nistz256_select_w7''),
    (''neon_available'', ''ring_core_0_17_14__neon_available''),
    (''p256_mul_mont'', ''ring_core_0_17_14__p256_mul_mont''),
    (''p256_point_add'', ''ring_core_0_17_14__p256_point_add''),
    (''p256_point_add_affine'', ''ring_core_0_17_14__p256_point_add_affine''),
    (''p256_point_double'', ''ring_core_0_17_14__p256_point_double''),
    (''p256_point_mul'', ''ring_core_0_17_14__p256_point_mul''),
    (''p256_point_mul_base'', ''ring_core_0_17_14__p256_point_mul_base''),
    (''p256_point_mul_base_vartime'', ''ring_core_0_17_14__p256_point_mul_base_vartime''),
    (''p256_scalar_mul_mont'', ''ring_core_0_17_14__p256_scalar_mul_mont''),
    (''p256_scalar_sqr_rep_mont'', ''ring_core_0_17_14__p256_scalar_sqr_rep_mont''),
    (''p256_sqr_mont'', ''ring_core_0_17_14__p256_sqr_mont''),
    (''p384_elem_div_by_2'', ''ring_core_0_17_14__p384_elem_div_by_2''),
    (''p384_elem_mul_mont'', ''ring_core_0_17_14__p384_elem_mul_mont''),
    (''p384_elem_neg'', ''ring_core_0_17_14__p384_elem_neg''),
    (''p384_elem_sub'', ''ring_core_0_17_14__p384_elem_sub''),
    (''p384_point_add'', ''ring_core_0_17_14__p384_point_add''),
    (''p384_point_double'', ''ring_core_0_17_14__p384_point_double''),
    (''p384_point_mul'', ''ring_core_0_17_14__p384_point_mul''),
    (''p384_scalar_mul_mont'', ''ring_core_0_17_14__p384_scalar_mul_mont''),
    (''openssl_poly1305_neon2_addmulmod'', ''ring_core_0_17_14__openssl_poly1305_neon2_addmulmod''),
    (''openssl_poly1305_neon2_blocks'', ''ring_core_0_17_14__openssl_poly1305_neon2_blocks''),
    (''sha256_block_data_order'', ''ring_core_0_17_14__sha256_block_data_order''),
    (''sha256_block_data_order_avx'', ''ring_core_0_17_14__sha256_block_data_order_avx''),
    (''sha256_block_data_order_ssse3'', ''ring_core_0_17_14__sha256_block_data_order_ssse3''),
    (''sha256_block_data_order_hw'', ''ring_core_0_17_14__sha256_block_data_order_hw''),
    (''sha256_block_data_order_neon'', ''ring_core_0_17_14__sha256_block_data_order_neon''),
    (''sha256_block_data_order_nohw'', ''ring_core_0_17_14__sha256_block_data_order_nohw''),
    (''sha512_block_data_order'', ''ring_core_0_17_14__sha512_block_data_order''),
    (''sha512_block_data_order_avx'', ''ring_core_0_17_14__sha512_block_data_order_avx''),
    (''sha512_block_data_order_hw'', ''ring_core_0_17_14__sha512_block_data_order_hw''),
    (''sha512_block_data_order_neon'', ''ring_core_0_17_14__sha512_block_data_order_neon''),
    (''sha512_block_data_order_nohw'', ''ring_core_0_17_14__sha512_block_data_order_nohw''),
    (''vpaes_ctr32_encrypt_blocks'', ''ring_core_0_17_14__vpaes_ctr32_encrypt_blocks''),
    (''vpaes_encrypt'', ''ring_core_0_17_14__vpaes_encrypt''),
    (''vpaes_encrypt_key_to_bsaes'', ''ring_core_0_17_14__vpaes_encrypt_key_to_bsaes''),
    (''vpaes_set_encrypt_key'', ''ring_core_0_17_14__vpaes_set_encrypt_key''),
    (''x25519_NEON'', ''ring_core_0_17_14__x25519_NEON''),
    (''x25519_fe_invert'', ''ring_core_0_17_14__x25519_fe_invert''),
    (''x25519_fe_isnegative'', ''ring_core_0_17_14__x25519_fe_isnegative''),
    (''x25519_fe_mul_ttt'', ''ring_core_0_17_14__x25519_fe_mul_ttt''),
    (''x25519_fe_neg'', ''ring_core_0_17_14__x25519_fe_neg''),
    (''x25519_fe_tobytes'', ''ring_core_0_17_14__x25519_fe_tobytes''),
    (''x25519_ge_double_scalarmult_vartime'', ''ring_core_0_17_14__x25519_ge_double_scalarmult_vartime''),
    (''x25519_ge_frombytes_vartime'', ''ring_core_0_17_14__x25519_ge_frombytes_vartime''),
    (''x25519_ge_scalarmult_base'', ''ring_core_0_17_14__x25519_ge_scalarmult_base''),
    (''x25519_ge_scalarmult_base_adx'', ''ring_core_0_17_14__x25519_ge_scalarmult_base_adx''),
    (''x25519_public_from_private_generic_masked'', ''ring_core_0_17_14__x25519_public_from_private_generic_masked''),
    (''x25519_sc_mask'', ''ring_core_0_17_14__x25519_sc_mask''),
    (''x25519_sc_muladd'', ''ring_core_0_17_14__x25519_sc_muladd''),
    (''x25519_sc_reduce'', ''ring_core_0_17_14__x25519_sc_reduce''),
    (''x25519_scalar_mult_adx'', ''ring_core_0_17_14__x25519_scalar_mult_adx''),
    (''x25519_scalar_mult_generic_masked'', ''ring_core_0_17_14__x25519_scalar_mult_generic_masked'')]"

text \<open>The platform conditional selects the branch.\<close>

fun prefix_symbols_asm :: "platform \<Rightarrow> rule list" where
  "prefix_symbols_asm Apple = apple_branch"
| "prefix_symbols_asm NonApple = non_apple_branch"

text \<open>
  The canonical names of a platform class are the macro names its branch defines, the
  exported names are the replacements.
\<close>

definition canonical_names :: "platform \<Rightarrow> string set" where
  "canonical_names p = set (map fst (prefix_symbols_asm p))"

definition exported_names :: "platform \<Rightarrow> string set" where
  "exported_names p = set (map snd (prefix_symbols_asm p))"

text \<open>
  Looking a name up: the replacement of the macro of that name, if the branch defines
  one. No branch defines a name twice (\<open>keys_distinct\<close> below), so the lookup does not
  depend on the order of the rules.
\<close>

definition rename :: "platform \<Rightarrow> string \<Rightarrow> string option" where
  "rename p n = map_of (prefix_symbols_asm p) n"

text \<open>
  One replacement step of the preprocessor on an identifier: a macro name is replaced by
  its replacement, any other identifier is left as it is. The preprocessor rescans the
  result, so an identifier is replaced repeatedly until it is no macro name.
\<close>

definition expand :: "platform \<Rightarrow> string \<Rightarrow> string" where
  "expand p n = (case rename p n of None \<Rightarrow> n | Some e \<Rightarrow> e)"

text \<open>The version tag that the exported names embed, in the form of each platform class.\<close>

fun version_tag :: "platform \<Rightarrow> string" where
  "version_tag Apple = ''_ring_core_0_17_14''"
| "version_tag NonApple = ''ring_core_0_17_14''"

text \<open>Prepending the leading underscore of the Apple naming convention.\<close>

definition underscore :: "string \<Rightarrow> string" where
  "underscore n = CHR ''_'' # n"

definition underscore_rule :: "rule \<Rightarrow> rule" where
  "underscore_rule r = (underscore (fst r), underscore (snd r))"

text \<open>
  The first seven rules of each branch give an \<^verbatim>\<open>ecp_nistz256\<close> routine its \<^verbatim>\<open>p256\<close> name;
  they are listed here in the non-Apple form, and \<open>aliases\<close> gives them in the form of
  each platform class.
\<close>

definition p256_aliases :: "rule list" where
  "p256_aliases = [
    (''ecp_nistz256_point_double'', ''p256_point_double''),
    (''ecp_nistz256_point_add'', ''p256_point_add''),
    (''ecp_nistz256_point_add_affine'', ''p256_point_add_affine''),
    (''ecp_nistz256_ord_mul_mont'', ''p256_scalar_mul_mont''),
    (''ecp_nistz256_ord_sqr_mont'', ''p256_scalar_sqr_rep_mont''),
    (''ecp_nistz256_mul_mont'', ''p256_mul_mont''),
    (''ecp_nistz256_sqr_mont'', ''p256_sqr_mont'')]"

fun aliases :: "platform \<Rightarrow> rule list" where
  "aliases Apple = map underscore_rule p256_aliases"
| "aliases NonApple = p256_aliases"

text \<open>The canonical names that the alias rules rename.\<close>

definition alias_names :: "platform \<Rightarrow> string set" where
  "alias_names p = set (map fst (aliases p))"

section \<open>Facts read off the table\<close>

text \<open>
  The lemmas of this section evaluate the two lists. Everything after them argues from
  these facts and does not unfold the lists again.
\<close>

lemma non_apple_keys_distinct: "distinct (map fst non_apple_branch)"
  unfolding non_apple_branch_def by simp

lemma non_apple_split: "non_apple_branch = p256_aliases @ drop 7 non_apple_branch"
  unfolding non_apple_branch_def p256_aliases_def by simp

lemma non_apple_prefixed:
  "\<forall>r \<in> set (drop 7 non_apple_branch). snd r = ''ring_core_0_17_14__'' @ fst r"
  unfolding list_all_iff [symmetric] non_apple_branch_def by simp

lemma non_apple_keys_initial: "\<forall>r \<in> set non_apple_branch. \<not> prefix ''r'' (fst r)"
  unfolding list_all_iff [symmetric] non_apple_branch_def by simp

lemma apple_branch_conv: "apple_branch = map underscore_rule non_apple_branch"
  unfolding apple_branch_def non_apple_branch_def underscore_rule_def underscore_def
  by simp

lemma p256_aliases_targets:
  "\<forall>r \<in> set p256_aliases. (snd r, ''ring_core_0_17_14__'' @ snd r) \<in> set non_apple_branch"
  unfolding list_all_iff [symmetric] p256_aliases_def non_apple_branch_def by simp

lemma aliases_untagged: "\<forall>r \<in> set (aliases p). \<not> sublist (version_tag p) (snd r)"
  by (cases p)
     (simp_all add: p256_aliases_def underscore_rule_def underscore_def sublist_Cons_right)

lemma p256_aliases_keys: "distinct (map fst p256_aliases) \<and> length p256_aliases = 7"
  unfolding p256_aliases_def by simp

lemma p256_aliases_exports: "distinct (map snd p256_aliases)"
  unfolding p256_aliases_def by simp

section \<open>The Apple branch in terms of the other\<close>

lemma inj_underscore: "inj underscore"
  by (simp add: inj_def underscore_def)

lemma underscore_eq_iff [simp]: "underscore a = underscore b \<longleftrightarrow> a = b"
  by (simp add: underscore_def)

lemma map_of_underscore:
  "map_of (map underscore_rule xs) (underscore n) = map_option underscore (map_of xs n)"
  by (induction xs) (simp_all add: underscore_rule_def)

lemma map_of_no_underscore:
  assumes "\<And>m. n \<noteq> underscore m"
  shows "map_of (map underscore_rule xs) n = None"
  using assms by (induction xs) (simp_all add: underscore_rule_def)

lemma in_underscore_rule_image:
  "(n, e) \<in> underscore_rule ` A \<longleftrightarrow>
     (\<exists>n0 e0. n = underscore n0 \<and> e = underscore e0 \<and> (n0, e0) \<in> A)"
proof
  assume "(n, e) \<in> underscore_rule ` A"
  then obtain r where "r \<in> A" "(n, e) = underscore_rule r" by blast
  then have "n = underscore (fst r) \<and> e = underscore (snd r) \<and> (fst r, snd r) \<in> A"
    by (simp add: underscore_rule_def)
  then show "\<exists>n0 e0. n = underscore n0 \<and> e = underscore e0 \<and> (n0, e0) \<in> A" by blast
next
  assume "\<exists>n0 e0. n = underscore n0 \<and> e = underscore e0 \<and> (n0, e0) \<in> A"
  then obtain n0 e0 where "n = underscore n0" "e = underscore e0" "(n0, e0) \<in> A" by blast
  then have "(n, e) = underscore_rule (n0, e0)" by (simp add: underscore_rule_def)
  then show "(n, e) \<in> underscore_rule ` A" using \<open>(n0, e0) \<in> A\<close> by blast
qed

lemma in_apple_branch:
  "(n, e) \<in> set apple_branch \<longleftrightarrow>
     (\<exists>n0 e0. n = underscore n0 \<and> e = underscore e0 \<and> (n0, e0) \<in> set non_apple_branch)"
  unfolding apple_branch_conv set_map by (rule in_underscore_rule_image)

lemma in_apple_aliases:
  "(n, e) \<in> set (aliases Apple) \<longleftrightarrow>
     (\<exists>n0 e0. n = underscore n0 \<and> e = underscore e0 \<and> (n0, e0) \<in> set p256_aliases)"
  unfolding aliases.simps set_map by (rule in_underscore_rule_image)

lemma aliases_are_rules: "set (aliases p) \<subseteq> set (prefix_symbols_asm p)"
proof (cases p)
  case NonApple
  have "set p256_aliases \<subseteq> set (p256_aliases @ drop 7 non_apple_branch)" by simp
  then have "set p256_aliases \<subseteq> set non_apple_branch" using non_apple_split by simp
  then show ?thesis using NonApple by simp
next
  case Apple
  have "set p256_aliases \<subseteq> set (p256_aliases @ drop 7 non_apple_branch)" by simp
  then have "set p256_aliases \<subseteq> set non_apple_branch" using non_apple_split by simp
  then show ?thesis using Apple by (auto simp add: apple_branch_conv)
qed

section \<open>The shape of the rules\<close>

lemma keys_distinct: "distinct (map fst (prefix_symbols_asm p))"
proof (cases p)
  case NonApple
  then show ?thesis by (simp add: non_apple_keys_distinct)
next
  case Apple
  have "map fst apple_branch = map underscore (map fst non_apple_branch)"
    by (simp add: apple_branch_conv underscore_rule_def comp_def)
  moreover have "distinct (map underscore (map fst non_apple_branch))"
    using non_apple_keys_distinct inj_underscore
    by (simp only: distinct_map) (auto intro: inj_on_subset)
  ultimately show ?thesis using Apple by simp
qed

lemma rename_Some_iff: "rename p n = Some e \<longleftrightarrow> (n, e) \<in> set (prefix_symbols_asm p)"
  unfolding rename_def using keys_distinct [of p] by simp

lemma non_apple_rule_shape:
  assumes "(n, e) \<in> set non_apple_branch"
  shows "(n, e) \<in> set p256_aliases \<or> e = ''ring_core_0_17_14__'' @ n"
proof -
  from assms have "(n, e) \<in> set (p256_aliases @ drop 7 non_apple_branch)"
    using non_apple_split by simp
  then consider "(n, e) \<in> set p256_aliases" | "(n, e) \<in> set (drop 7 non_apple_branch)"
    by auto
  then show ?thesis
  proof cases
    case 1 then show ?thesis by simp
  next
    case 2 then show ?thesis using non_apple_prefixed by auto
  qed
qed

lemma rule_shape:
  assumes "(n, e) \<in> set (prefix_symbols_asm p)"
  shows "(n, e) \<in> set (aliases p) \<or> prefix (version_tag p @ ''__'') e"
proof (cases p)
  case NonApple
  with assms non_apple_rule_shape [of n e] show ?thesis by auto
next
  case Apple
  with assms obtain n0 e0 where *: "n = underscore n0" "e = underscore e0"
    "(n0, e0) \<in> set non_apple_branch"
    by (auto simp add: in_apple_branch)
  from non_apple_rule_shape [OF *(3)] show ?thesis
  proof
    assume "(n0, e0) \<in> set p256_aliases"
    then have "(n, e) \<in> set (aliases Apple)" using * in_apple_aliases by blast
    then show ?thesis using Apple by simp
  next
    assume "e0 = ''ring_core_0_17_14__'' @ n0"
    then show ?thesis using Apple * by (simp add: underscore_def)
  qed
qed

lemma tagged_not_canonical:
  assumes "prefix (version_tag p) e"
  shows "e \<notin> canonical_names p"
proof
  assume "e \<in> canonical_names p"
  then obtain x where x: "(e, x) \<in> set (prefix_symbols_asm p)"
    by (auto simp add: canonical_names_def)
  show False
  proof (cases p)
    case NonApple
    with x non_apple_keys_initial have "\<not> prefix ''r'' e" by auto
    moreover from assms NonApple have "prefix ''r'' e"
      by (auto simp add: prefix_def)
    ultimately show False by simp
  next
    case Apple
    with x obtain n0 where n0: "e = underscore n0" "n0 \<in> fst ` set non_apple_branch"
      by (force simp add: in_apple_branch)
    with non_apple_keys_initial have "\<not> prefix ''r'' n0" by auto
    moreover from assms Apple n0 have "prefix ''r'' n0"
      by (auto simp add: prefix_def underscore_def)
    ultimately show False by simp
  qed
qed

lemma alias_target:
  assumes "(n, e) \<in> set (aliases p)"
  shows "(e, version_tag p @ ''__'' @ drop (length (version_tag p) - 17) e) \<in> set (prefix_symbols_asm p)"
proof (cases p)
  case NonApple
  with assms p256_aliases_targets show ?thesis by auto
next
  case Apple
  with assms have "(n, e) \<in> set (aliases Apple)" by simp
  then obtain n0 e0 where *: "e = underscore e0" "(n0, e0) \<in> set p256_aliases"
    unfolding in_apple_aliases by blast
  with p256_aliases_targets have "(e0, ''ring_core_0_17_14__'' @ e0) \<in> set non_apple_branch"
    by auto
  then have "(underscore e0, underscore (''ring_core_0_17_14__'' @ e0)) \<in> set apple_branch"
    using in_apple_branch by blast
  then show ?thesis using Apple * by (simp add: underscore_def)
qed

lemma eq_export_imp_eq_key:
  "distinct (map snd xs) \<Longrightarrow> (a, e) \<in> set xs \<Longrightarrow> (b, e) \<in> set xs \<Longrightarrow> a = b"
  by (induction xs) (auto simp add: image_iff)

lemma non_apple_exports_inj:
  assumes a: "(a, e) \<in> set non_apple_branch" and b: "(b, e) \<in> set non_apple_branch"
  shows "a = b"
proof -
  have untagged: "\<not> sublist ''ring_core_0_17_14'' (snd r)" if "r \<in> set p256_aliases" for r
    using that aliases_untagged [of NonApple] by simp
  have tagged: "sublist ''ring_core_0_17_14'' (''ring_core_0_17_14__'' @ x)" for x :: string
    by (rule prefix_imp_sublist) simp
  from non_apple_rule_shape [OF a] non_apple_rule_shape [OF b]
  consider "(a, e) \<in> set p256_aliases" "(b, e) \<in> set p256_aliases"
    | "(a, e) \<in> set p256_aliases" "e = ''ring_core_0_17_14__'' @ b"
    | "e = ''ring_core_0_17_14__'' @ a" "(b, e) \<in> set p256_aliases"
    | "e = ''ring_core_0_17_14__'' @ a" "e = ''ring_core_0_17_14__'' @ b"
    by blast
  then show ?thesis
  proof cases
    case 1
    then show ?thesis using p256_aliases_exports by (rule eq_export_imp_eq_key [rotated])
  next
    case 2
    then show ?thesis using untagged [of "(a, e)"] tagged [of b] by simp
  next
    case 3
    then show ?thesis using untagged [of "(b, e)"] tagged [of a] by simp
  next
    case 4
    then show ?thesis by simp
  qed
qed

lemma exports_inj:
  assumes "(a, e) \<in> set (prefix_symbols_asm p)" and "(b, e) \<in> set (prefix_symbols_asm p)"
  shows "a = b"
proof (cases p)
  case NonApple
  with assms show ?thesis using non_apple_exports_inj by simp
next
  case Apple
  with assms have "(a, e) \<in> set apple_branch" "(b, e) \<in> set apple_branch" by simp_all
  then obtain a0 e0 b0 e1 where *: "a = underscore a0" "e = underscore e0"
      "(a0, e0) \<in> set non_apple_branch" "b = underscore b0" "e = underscore e1"
      "(b0, e1) \<in> set non_apple_branch"
    unfolding in_apple_branch by blast
  then have "e0 = e1" by simp
  with * have "a0 = b0" using non_apple_exports_inj by blast
  with * show ?thesis by simp
qed

lemma canonical_has_rule:
  assumes "n \<in> canonical_names p"
  obtains e where "(n, e) \<in> set (prefix_symbols_asm p)" and "rename p n = Some e"
proof -
  from assms obtain e where "(n, e) \<in> set (prefix_symbols_asm p)"
    by (auto simp add: canonical_names_def)
  then show thesis using that rename_Some_iff by blast
qed

lemma rename_None_iff: "rename p n = None \<longleftrightarrow> n \<notin> canonical_names p"
  by (simp add: rename_def canonical_names_def map_of_eq_None_iff)

lemma expand_rule: "(n, e) \<in> set (prefix_symbols_asm p) \<Longrightarrow> expand p n = e"
  by (simp add: expand_def rename_Some_iff [symmetric])

lemma expand_tagged: "prefix (version_tag p) e \<Longrightarrow> expand p e = e"
  using tagged_not_canonical [of p e] by (simp add: expand_def rename_None_iff [symmetric])

lemma alias_key_iff:
  assumes "(n, e) \<in> set (prefix_symbols_asm p)"
  shows "n \<in> fst ` set (aliases p) \<longleftrightarrow> (n, e) \<in> set (aliases p)"
proof
  assume "n \<in> fst ` set (aliases p)"
  then obtain x where x: "(n, x) \<in> set (aliases p)" by auto
  then have "(n, x) \<in> set (prefix_symbols_asm p)" using aliases_are_rules by blast
  with assms have "x = e" using keys_distinct eq_key_imp_eq_value by metis
  with x show "(n, e) \<in> set (aliases p)" by simp
next
  assume "(n, e) \<in> set (aliases p)"
  then show "n \<in> fst ` set (aliases p)" by force
qed

lemma tag_in_apple_tag: "sublist ''ring_core_0_17_14'' (version_tag p)"
  by (cases p) (simp_all add: sublist_Cons_right)

lemma map_fst_underscore_rule:
  "map fst (map underscore_rule xs) = map underscore (map fst xs)"
  by (induction xs) (simp_all add: underscore_rule_def)

lemma distinct_underscore_keys:
  assumes "distinct (map fst xs)"
  shows "distinct (map fst (map underscore_rule xs))"
proof -
  from assms have "distinct (map underscore (map fst xs))"
    by (simp add: distinct_map inj_on_def)
  then show ?thesis by (simp only: map_fst_underscore_rule)
qed

lemma alias_names_conv: "alias_names p = fst ` set (aliases p)"
  by (simp add: alias_names_def)

lemma card_alias_keys: "card (fst ` set (aliases p)) = 7"
proof -
  have d: "distinct (map fst p256_aliases)" using p256_aliases_keys by simp
  have "distinct (map fst (aliases p))"
  proof (cases p)
    case NonApple
    then show ?thesis using d by simp
  next
    case Apple
    then show ?thesis using distinct_underscore_keys [OF d] by (simp only: aliases.simps)
  qed
  then have "card (set (map fst (aliases p))) = length (map fst (aliases p))"
    by (rule distinct_card)
  moreover have "length (aliases p) = 7" using p256_aliases_keys by (cases p) simp_all
  ultimately show ?thesis by simp
qed

text \<open>
  How a canonical name expands: a rule that is no alias yields a tagged name, which is no
  macro name; an alias yields a \<^verbatim>\<open>p256\<close> name, whose own rule yields a tagged name.
\<close>

lemma expand_canonical:
  assumes "(n, e) \<in> set (prefix_symbols_asm p)"
  shows "(n, e) \<notin> set (aliases p) \<Longrightarrow> prefix (version_tag p) e \<and> e \<notin> canonical_names p"
    and "(n, e) \<in> set (aliases p) \<Longrightarrow>
           e \<in> canonical_names p \<and> \<not> sublist (version_tag p) e \<and>
           (\<exists>e'. (e, e') \<in> set (prefix_symbols_asm p) \<and> prefix (version_tag p) e')"
proof -
  assume "(n, e) \<notin> set (aliases p)"
  with rule_shape [OF assms] have "prefix (version_tag p @ ''__'') e" by simp
  then have "prefix (version_tag p) e" by (rule append_prefixD)
  then show "prefix (version_tag p) e \<and> e \<notin> canonical_names p"
    using tagged_not_canonical by simp
next
  assume al: "(n, e) \<in> set (aliases p)"
  let ?e' = "version_tag p @ ''__'' @ drop (length (version_tag p) - 17) e"
  from alias_target [OF al] have r: "(e, ?e') \<in> set (prefix_symbols_asm p)" .
  then have "e \<in> canonical_names p" by (force simp add: canonical_names_def)
  moreover have "\<not> sublist (version_tag p) e" using al aliases_untagged by force
  moreover have "prefix (version_tag p) ?e'" by simp
  ultimately show "e \<in> canonical_names p \<and> \<not> sublist (version_tag p) e \<and>
           (\<exists>e'. (e, e') \<in> set (prefix_symbols_asm p) \<and> prefix (version_tag p) e')"
    using r by blast
qed

lemma expand_twice:
  assumes "n \<in> canonical_names p"
  shows "prefix (version_tag p) (expand p (expand p n))"
    and "n \<notin> fst ` set (aliases p) \<Longrightarrow> prefix (version_tag p) (expand p n)"
proof -
  from assms obtain e where r: "(n, e) \<in> set (prefix_symbols_asm p)"
    by (rule canonical_has_rule)
  then have e: "expand p n = e" by (rule expand_rule)
  show "prefix (version_tag p) (expand p (expand p n))"
  proof (cases "(n, e) \<in> set (aliases p)")
    case True
    with expand_canonical(2) [OF r] obtain e' where
      "(e, e') \<in> set (prefix_symbols_asm p)" "prefix (version_tag p) e'" by blast
    then show ?thesis using e expand_rule by simp
  next
    case False
    with expand_canonical(1) [OF r] have "prefix (version_tag p) e" by simp
    then show ?thesis using e expand_tagged by simp
  qed
  show "prefix (version_tag p) (expand p n)" if "n \<notin> fst ` set (aliases p)"
  proof -
    from that have "(n, e) \<notin> set (aliases p)" using alias_key_iff [OF r] by simp
    with expand_canonical(1) [OF r] show ?thesis using e by simp
  qed
qed

text \<open>No rule renames a name to itself.\<close>

lemma rule_not_identity:
  assumes "(n, e) \<in> set (prefix_symbols_asm p)"
  shows "e \<noteq> n"
proof (cases "(n, e) \<in> set (aliases p)")
  case False
  with expand_canonical(1) [OF assms] have "e \<notin> canonical_names p" by simp
  moreover from assms have "n \<in> canonical_names p" by (force simp add: canonical_names_def)
  ultimately show ?thesis by blast
next
  case True
  with expand_canonical(2) [OF assms] obtain e' where
    u: "\<not> sublist (version_tag p) e" and r: "(e, e') \<in> set (prefix_symbols_asm p)"
    and t: "prefix (version_tag p) e'"
    by blast
  show ?thesis
  proof
    assume "e = n"
    with r have "(n, e') \<in> set (prefix_symbols_asm p)" by simp
    with keys_distinct have "e' = e" using assms by (rule eq_key_imp_eq_value)
    with t have "sublist (version_tag p) e" by (simp add: prefix_imp_sublist)
    with u show False by simp
  qed
qed

section \<open>The claims\<close>

text \<open>
  C1, as stated: every rule of the non-Apple branch has an exported name that contains
  \<^verbatim>\<open>ring_core_0_17_14\<close>, and every rule of the Apple branch one that contains
  \<^verbatim>\<open>_ring_core_0_17_14\<close>. This fails at the first rule of each branch: the exported
  names \<^verbatim>\<open>p256_point_double\<close> and \<^verbatim>\<open>_p256_point_double\<close> do not contain the tag.
\<close>

theorem alias_rule_without_version_tag:
  "(''ecp_nistz256_point_double'', ''p256_point_double'') \<in> set (prefix_symbols_asm NonApple) \<and>
   \<not> sublist (version_tag NonApple) ''p256_point_double'' \<and>
   (''_ecp_nistz256_point_double'', ''_p256_point_double'') \<in> set (prefix_symbols_asm Apple) \<and>
   \<not> sublist (version_tag Apple) ''_p256_point_double''"
  by (simp add: non_apple_branch_def apple_branch_def sublist_Cons_right)

text \<open>
  C1, amended: the exported name of every rule other than the seven alias rules contains
  the version tag in the form of its platform class. The exported name of an alias rule
  does not contain it; it is a canonical name of the same branch, and the rule of that
  name has an exported name that contains the tag.
\<close>

theorem exported_name_version_tag:
  assumes "(n, e) \<in> set (prefix_symbols_asm p)"
  shows "if (n, e) \<in> set (aliases p)
         then \<not> sublist (version_tag p) e \<and>
              (\<exists>e'. rename p e = Some e' \<and> sublist (version_tag p) e')
         else sublist (version_tag p) e"
proof (cases "(n, e) \<in> set (aliases p)")
  case True
  with expand_canonical(2) [OF assms] obtain e' where
    "\<not> sublist (version_tag p) e" "(e, e') \<in> set (prefix_symbols_asm p)"
    "prefix (version_tag p) e'"
    by blast
  then have "\<not> sublist (version_tag p) e \<and> rename p e = Some e' \<and> sublist (version_tag p) e'"
    using rename_Some_iff by simp
  with True show ?thesis by auto
next
  case False
  with expand_canonical(1) [OF assms] have "sublist (version_tag p) e" by simp
  with False show ?thesis by simp
qed

theorem exported_name_version_tag_witness:
  "(''CRYPTO_memcmp'', ''ring_core_0_17_14__CRYPTO_memcmp'') \<in> set (prefix_symbols_asm NonApple) \<and>
   (''CRYPTO_memcmp'', ''ring_core_0_17_14__CRYPTO_memcmp'') \<notin> set (aliases NonApple) \<and>
   sublist (version_tag NonApple) ''ring_core_0_17_14__CRYPTO_memcmp'' \<and>
   (''_ecp_nistz256_sqr_mont'', ''_p256_sqr_mont'') \<in> set (prefix_symbols_asm Apple) \<and>
   (''_ecp_nistz256_sqr_mont'', ''_p256_sqr_mont'') \<in> set (aliases Apple) \<and>
   \<not> sublist (version_tag Apple) ''_p256_sqr_mont'' \<and>
   rename Apple ''_p256_sqr_mont'' \<noteq> None"
proof -
  have r1: "(''CRYPTO_memcmp'', ''ring_core_0_17_14__CRYPTO_memcmp'')
      \<in> set (prefix_symbols_asm NonApple)"
    by (simp add: non_apple_branch_def)
  have a1: "(''CRYPTO_memcmp'', ''ring_core_0_17_14__CRYPTO_memcmp'') \<notin> set (aliases NonApple)"
    by (simp add: p256_aliases_def)
  have r2: "(''_ecp_nistz256_sqr_mont'', ''_p256_sqr_mont'') \<in> set (prefix_symbols_asm Apple)"
    by (simp add: apple_branch_def)
  have a2: "(''_ecp_nistz256_sqr_mont'', ''_p256_sqr_mont'') \<in> set (aliases Apple)"
    by (simp add: p256_aliases_def underscore_rule_def underscore_def)
  have c1: "sublist (version_tag NonApple) ''ring_core_0_17_14__CRYPTO_memcmp''"
    using exported_name_version_tag [OF r1] unfolding if_not_P [OF a1] .
  have c2: "\<not> sublist (version_tag Apple) ''_p256_sqr_mont'' \<and>
      (\<exists>e'. rename Apple ''_p256_sqr_mont'' = Some e' \<and> sublist (version_tag Apple) e')"
    using exported_name_version_tag [OF r2] unfolding if_P [OF a2] .
  then have c3: "\<not> sublist (version_tag Apple) ''_p256_sqr_mont''" ..
  from c2 obtain e' where "rename Apple ''_p256_sqr_mont'' = Some e'" by blast
  then have c4: "rename Apple ''_p256_sqr_mont'' \<noteq> None" by simp
  from r1 a1 c1 r2 a2 c3 c4 show ?thesis by (intro conjI)
qed

text \<open>
  C2: within a platform class the table is injective: two distinct canonical names of the
  same branch are renamed to distinct exported names.
\<close>

theorem rename_injective:
  assumes "a \<in> canonical_names p" and "b \<in> canonical_names p" and "a \<noteq> b"
  shows "rename p a \<noteq> rename p b"
proof
  assume eq: "rename p a = rename p b"
  from assms(1) obtain e where "(a, e) \<in> set (prefix_symbols_asm p)" "rename p a = Some e"
    by (rule canonical_has_rule)
  moreover from this eq have "rename p b = Some e" by simp
  ultimately have "(a, e) \<in> set (prefix_symbols_asm p)" "(b, e) \<in> set (prefix_symbols_asm p)"
    by (simp_all only: rename_Some_iff)
  then have "a = b" by (rule exports_inj)
  with assms(3) show False by simp
qed

theorem rename_injective_witness:
  "''CRYPTO_memcmp'' \<in> canonical_names NonApple \<and>
   ''avx2_available'' \<in> canonical_names NonApple \<and>
   ''CRYPTO_memcmp'' \<noteq> ''avx2_available'' \<and>
   rename NonApple ''CRYPTO_memcmp'' \<noteq> rename NonApple ''avx2_available''"
proof -
  have a: "''CRYPTO_memcmp'' \<in> canonical_names NonApple"
    by (simp add: canonical_names_def non_apple_branch_def)
  have b: "''avx2_available'' \<in> canonical_names NonApple"
    by (simp add: canonical_names_def non_apple_branch_def)
  have ab: "''CRYPTO_memcmp'' \<noteq> ''avx2_available''" by simp
  from a b ab rename_injective [OF a b ab] show ?thesis by (intro conjI)
qed

text \<open>
  C3: the canonical name \<^verbatim>\<open>CRYPTO_memcmp\<close>, written \<^verbatim>\<open>_CRYPTO_memcmp\<close> under the Apple
  convention, maps to \<^verbatim>\<open>_ring_core_0_17_14__CRYPTO_memcmp\<close> on Apple platforms and to
  \<^verbatim>\<open>ring_core_0_17_14__CRYPTO_memcmp\<close> on the others.
\<close>

theorem CRYPTO_memcmp_renamed:
  "rename Apple ''_CRYPTO_memcmp'' = Some ''_ring_core_0_17_14__CRYPTO_memcmp'' \<and>
   rename NonApple ''CRYPTO_memcmp'' = Some ''ring_core_0_17_14__CRYPTO_memcmp''"
  by (simp add: rename_Some_iff apple_branch_def non_apple_branch_def)

text \<open>
  C4: for each platform class the table is a total function on its canonical names: no
  name is defined twice in a branch, every canonical name has exactly one rule, and the
  lookup of a canonical name yields an exported name.
\<close>

theorem table_total_function:
  "distinct (map fst (prefix_symbols_asm p)) \<and>
   (\<forall>n \<in> canonical_names p. (\<exists>!e. (n, e) \<in> set (prefix_symbols_asm p)) \<and>
      (\<exists>e. rename p n = Some e))"
proof (intro conjI ballI)
  show "distinct (map fst (prefix_symbols_asm p))" by (rule keys_distinct)
next
  fix n assume n: "n \<in> canonical_names p"
  then obtain e where e: "(n, e) \<in> set (prefix_symbols_asm p)" "rename p n = Some e"
    by (rule canonical_has_rule)
  then show "\<exists>e. rename p n = Some e" by blast
  have "x = e" if "(n, x) \<in> set (prefix_symbols_asm p)" for x
    using keys_distinct that e(1) by (rule eq_key_imp_eq_value)
  with e(1) show "\<exists>!e. (n, e) \<in> set (prefix_symbols_asm p)" by blast
qed

theorem table_total_function_witness:
  "''_x25519_sc_mask'' \<in> canonical_names Apple \<and>
   (''_x25519_sc_mask'', ''_ring_core_0_17_14__x25519_sc_mask'') \<in> set (prefix_symbols_asm Apple) \<and>
   (''_x25519_sc_mask'', ''_ring_core_0_17_14__x25519_sc_muladd'') \<notin> set (prefix_symbols_asm Apple) \<and>
   rename Apple ''_x25519_sc_mask'' \<noteq> None"
proof -
  have r: "(''_x25519_sc_mask'', ''_ring_core_0_17_14__x25519_sc_mask'')
      \<in> set (prefix_symbols_asm Apple)"
    by (simp add: apple_branch_def)
  have n: "''_x25519_sc_mask'' \<in> canonical_names Apple"
    by (simp add: canonical_names_def apple_branch_def)
  note t = table_total_function [of Apple, THEN conjunct2, THEN bspec, OF n]
  from t have "\<exists>!e. (''_x25519_sc_mask'', e) \<in> set (prefix_symbols_asm Apple)"
    by (rule conjunct1)
  then have u: "\<forall>y y'. (''_x25519_sc_mask'', y) \<in> set (prefix_symbols_asm Apple) \<and>
      (''_x25519_sc_mask'', y') \<in> set (prefix_symbols_asm Apple) \<longrightarrow> y = y'"
    by (rule alt_ex1E)
  from t have "\<exists>e. rename Apple ''_x25519_sc_mask'' = Some e" by (rule conjunct2)
  then have d: "rename Apple ''_x25519_sc_mask'' \<noteq> None" by (elim exE) simp
  have o: "(''_x25519_sc_mask'', ''_ring_core_0_17_14__x25519_sc_muladd'')
      \<notin> set (prefix_symbols_asm Apple)"
  proof
    assume a: "(''_x25519_sc_mask'', ''_ring_core_0_17_14__x25519_sc_muladd'')
      \<in> set (prefix_symbols_asm Apple)"
    from u [rule_format, OF conjI, OF a r]
    show False by simp
  qed
  from n r o d show ?thesis by (intro conjI)
qed

text \<open>
  C5: the two branches rename the same canonical names, up to the leading underscore of
  the Apple convention: the canonical names of the Apple branch are those of the
  non-Apple branch with an underscore prepended, and in the same order.
\<close>

theorem canonical_names_apple:
  "canonical_names Apple = underscore ` canonical_names NonApple \<and>
   map fst (prefix_symbols_asm Apple) = map underscore (map fst (prefix_symbols_asm NonApple))"
proof -
  have "map fst (prefix_symbols_asm Apple)
      = map underscore (map fst (prefix_symbols_asm NonApple))"
    by (simp only: prefix_symbols_asm.simps apple_branch_conv map_fst_underscore_rule)
  moreover from this have "set (map fst (prefix_symbols_asm Apple))
      = set (map underscore (map fst (prefix_symbols_asm NonApple)))"
    by (rule arg_cong)
  then have "canonical_names Apple = underscore ` canonical_names NonApple"
    by (simp only: canonical_names_def set_map)
  ultimately show ?thesis by blast
qed

text \<open>
  C6: the two platform classes differ by the underscore convention only: the Apple branch
  is the non-Apple branch with an underscore prepended to both sides of every rule, so
  whenever the non-Apple branch renames \<open>n\<close> to \<open>e\<close>, the Apple branch renames
  \<open>_n\<close> to \<open>_e\<close>.
\<close>

theorem apple_branch_conjugate:
  "prefix_symbols_asm Apple = map underscore_rule (prefix_symbols_asm NonApple) \<and>
   (rename NonApple n = Some e \<longrightarrow> rename Apple (underscore n) = Some (underscore e)) \<and>
   rename Apple (underscore n) = map_option underscore (rename NonApple n)"
proof -
  have "rename Apple (underscore n) = map_option underscore (rename NonApple n)"
    unfolding rename_def prefix_symbols_asm.simps apple_branch_conv
    by (rule map_of_underscore)
  then show ?thesis by (simp add: apple_branch_conv)
qed

theorem apple_branch_conjugate_witness:
  "rename NonApple ''bn_mul_mont'' = Some ''ring_core_0_17_14__bn_mul_mont'' \<and>
   rename Apple ''_bn_mul_mont'' = Some ''_ring_core_0_17_14__bn_mul_mont''"
proof -
  have h: "rename NonApple ''bn_mul_mont'' = Some ''ring_core_0_17_14__bn_mul_mont''"
    by (simp add: rename_Some_iff non_apple_branch_def)
  note t = apple_branch_conjugate [of "''bn_mul_mont''" "''ring_core_0_17_14__bn_mul_mont''",
      THEN conjunct2, THEN conjunct1]
  from t h have "rename Apple (underscore ''bn_mul_mont'')
      = Some (underscore ''ring_core_0_17_14__bn_mul_mont'')"
    by (rule mp)
  then have "rename Apple ''_bn_mul_mont'' = Some ''_ring_core_0_17_14__bn_mul_mont''"
    by (simp only: underscore_def)
  with h show ?thesis by (intro conjI)
qed

text \<open>
  C7: the lookup yields an exported name exactly for the canonical names of the platform
  class. For a canonical name it yields the exported name of the rule of that name in the
  branch, which is an exported name of the branch and differs from the name looked up.
  For a name outside the set it yields nothing, and the preprocessor leaves such an
  identifier as it is. A lookup has no other outcome: either the name is no canonical
  name and there is no result, or the result is the exported name of a rule of the
  branch.
\<close>

theorem rename_defined_iff:
  "(rename p n = Some e \<longleftrightarrow> (n, e) \<in> set (prefix_symbols_asm p)) \<and>
   ((\<exists>x. rename p n = Some x) \<longleftrightarrow> n \<in> canonical_names p) \<and>
   (n \<in> canonical_names p \<longrightarrow>
      (\<exists>x. rename p n = Some x \<and> x \<in> exported_names p \<and> x \<noteq> n \<and> expand p n = x)) \<and>
   (n \<notin> canonical_names p \<longrightarrow> rename p n = None \<and> expand p n = n) \<and>
   ((rename p n = None \<and> n \<notin> canonical_names p) \<or>
    (\<exists>x. rename p n = Some x \<and> (n, x) \<in> set (prefix_symbols_asm p)))"
proof -
  have some: "\<exists>x. rename p n = Some x \<and> (n, x) \<in> set (prefix_symbols_asm p) \<and>
      x \<in> exported_names p \<and> x \<noteq> n \<and> expand p n = x"
    if "n \<in> canonical_names p"
  proof -
    from that obtain x where x: "(n, x) \<in> set (prefix_symbols_asm p)" "rename p n = Some x"
      by (rule canonical_has_rule)
    from x(1) have "x \<in> exported_names p" by (force simp add: exported_names_def)
    moreover from x(1) have "x \<noteq> n" by (rule rule_not_identity)
    moreover from x(1) have "expand p n = x" by (rule expand_rule)
    ultimately show ?thesis using x by blast
  qed
  have none: "rename p n = None \<and> expand p n = n" if "n \<notin> canonical_names p"
  proof -
    from rename_None_iff [of p n] that have "rename p n = None" by (rule iffD2)
    then show ?thesis by (simp add: expand_def)
  qed
  have dom: "(\<exists>x. rename p n = Some x) \<longleftrightarrow> n \<in> canonical_names p"
    using rename_None_iff [of p n] by auto
  have rule: "rename p n = Some e \<longleftrightarrow> (n, e) \<in> set (prefix_symbols_asm p)"
    by (rule rename_Some_iff)
  have cases: "(rename p n = None \<and> n \<notin> canonical_names p) \<or>
      (\<exists>x. rename p n = Some x \<and> (n, x) \<in> set (prefix_symbols_asm p))"
    using some none by (cases "n \<in> canonical_names p") blast+
  from rule dom some none cases show ?thesis by blast
qed

theorem rename_defined_iff_witness:
  "''memcmp'' \<notin> canonical_names NonApple \<and> rename NonApple ''memcmp'' = None \<and>
   expand NonApple ''memcmp'' = ''memcmp'' \<and>
   (''CRYPTO_memcmp'', ''ring_core_0_17_14__CRYPTO_memcmp'') \<in> set (prefix_symbols_asm NonApple) \<and>
   rename NonApple ''CRYPTO_memcmp'' = Some ''ring_core_0_17_14__CRYPTO_memcmp'' \<and>
   ''CRYPTO_memcmp'' \<in> canonical_names NonApple"
proof -
  have out: "''memcmp'' \<notin> canonical_names NonApple"
    by (simp add: canonical_names_def non_apple_branch_def)
  have r: "(''CRYPTO_memcmp'', ''ring_core_0_17_14__CRYPTO_memcmp'')
      \<in> set (prefix_symbols_asm NonApple)"
    by (simp add: non_apple_branch_def)
  note t1 = rename_defined_iff [of NonApple "''memcmp''" "[]",
      THEN conjunct2, THEN conjunct2, THEN conjunct2, THEN conjunct1]
  note t2 = rename_defined_iff [of NonApple "''CRYPTO_memcmp''"
      "''ring_core_0_17_14__CRYPTO_memcmp''"]
  from t1 out have n1: "rename NonApple ''memcmp'' = None \<and> expand NonApple ''memcmp'' = ''memcmp''"
    by (rule mp)
  from t2 [THEN conjunct1] r
  have s: "rename NonApple ''CRYPTO_memcmp'' = Some ''ring_core_0_17_14__CRYPTO_memcmp''"
    by (rule iffD2)
  then have "\<exists>x. rename NonApple ''CRYPTO_memcmp'' = Some x" by (rule exI)
  with t2 [THEN conjunct2, THEN conjunct1]
  have inn: "''CRYPTO_memcmp'' \<in> canonical_names NonApple" by (rule iffD1)
  from out n1 [THEN conjunct1] n1 [THEN conjunct2] r s inn show ?thesis by (intro conjI)
qed

text \<open>
  C10: in each branch the canonical names whose exported name is again a canonical name
  of the branch are exactly the seven names of the alias rules; the exported name of
  every other rule is no canonical name. So replacing a canonical name repeatedly stops
  after at most two steps (after one step for a name that is no alias), and the name
  reached begins with the version tag of the platform class, hence contains
  \<^verbatim>\<open>ring_core_0_17_14\<close>. The exported names that are canonical names are exactly the
  seven \<^verbatim>\<open>p256\<close> names of the alias rules.
\<close>

theorem expand_fixed_point:
  "{n \<in> canonical_names p. expand p n \<in> canonical_names p} = alias_names p \<and>
   card (alias_names p) = 7 \<and>
   exported_names p \<inter> canonical_names p = set (map snd (aliases p)) \<and>
   (\<forall>n \<in> canonical_names p.
      expand p (expand p (expand p n)) = expand p (expand p n) \<and>
      (n \<notin> alias_names p \<longrightarrow> expand p (expand p n) = expand p n) \<and>
      prefix (version_tag p) (expand p (expand p n)) \<and>
      sublist ''ring_core_0_17_14'' (expand p (expand p n)))"
  unfolding alias_names_conv
proof (intro conjI ballI)
  show "{n \<in> canonical_names p. expand p n \<in> canonical_names p} = fst ` set (aliases p)"
  proof (intro set_eqI iffI)
    fix n assume "n \<in> {n \<in> canonical_names p. expand p n \<in> canonical_names p}"
    then have n: "n \<in> canonical_names p" and c: "expand p n \<in> canonical_names p" by simp_all
    from n obtain e where r: "(n, e) \<in> set (prefix_symbols_asm p)"
      by (rule canonical_has_rule)
    with c have "e \<in> canonical_names p" using expand_rule by simp
    with expand_canonical(1) [OF r] have "(n, e) \<in> set (aliases p)" by blast
    then show "n \<in> fst ` set (aliases p)" by force
  next
    fix n assume "n \<in> fst ` set (aliases p)"
    then obtain e where al: "(n, e) \<in> set (aliases p)" by auto
    then have r: "(n, e) \<in> set (prefix_symbols_asm p)" using aliases_are_rules by blast
    then have "n \<in> canonical_names p" by (force simp add: canonical_names_def)
    moreover from expand_canonical(2) [OF r al] have "expand p n \<in> canonical_names p"
      using expand_rule [OF r] by simp
    ultimately show "n \<in> {n \<in> canonical_names p. expand p n \<in> canonical_names p}" by simp
  qed
next
  show "card (fst ` set (aliases p)) = 7" by (rule card_alias_keys)
next
  show "exported_names p \<inter> canonical_names p = set (map snd (aliases p))"
  proof (intro set_eqI iffI)
    fix e assume "e \<in> exported_names p \<inter> canonical_names p"
    then obtain n where r: "(n, e) \<in> set (prefix_symbols_asm p)" and c: "e \<in> canonical_names p"
      by (auto simp add: exported_names_def)
    with expand_canonical(1) [OF r] have "(n, e) \<in> set (aliases p)" by blast
    then show "e \<in> set (map snd (aliases p))" by force
  next
    fix e assume "e \<in> set (map snd (aliases p))"
    then obtain n where al: "(n, e) \<in> set (aliases p)" by auto
    then have r: "(n, e) \<in> set (prefix_symbols_asm p)" using aliases_are_rules by blast
    then have "e \<in> exported_names p" by (force simp add: exported_names_def)
    moreover from expand_canonical(2) [OF r al] have "e \<in> canonical_names p" by simp
    ultimately show "e \<in> exported_names p \<inter> canonical_names p" by simp
  qed
next
  fix n assume n: "n \<in> canonical_names p"
  then have t: "prefix (version_tag p) (expand p (expand p n))" by (rule expand_twice(1))
  then show "expand p (expand p (expand p n)) = expand p (expand p n)"
    by (rule expand_tagged)
  show "prefix (version_tag p) (expand p (expand p n))" by (rule t)
  from t have "sublist (version_tag p) (expand p (expand p n))" by (rule prefix_imp_sublist)
  with tag_in_apple_tag show "sublist ''ring_core_0_17_14'' (expand p (expand p n))"
    by (rule sublist_order.order_trans)
  show "n \<notin> fst ` set (aliases p) \<longrightarrow> expand p (expand p n) = expand p n"
    using expand_twice(2) [OF n] expand_tagged by blast
qed

theorem expand_fixed_point_witness:
  "''ecp_nistz256_ord_sqr_mont'' \<in> canonical_names NonApple \<and>
   expand NonApple ''ecp_nistz256_ord_sqr_mont'' = ''p256_scalar_sqr_rep_mont'' \<and>
   expand NonApple ''p256_scalar_sqr_rep_mont'' = ''ring_core_0_17_14__p256_scalar_sqr_rep_mont'' \<and>
   expand NonApple ''ring_core_0_17_14__p256_scalar_sqr_rep_mont''
     = ''ring_core_0_17_14__p256_scalar_sqr_rep_mont''"
proof -
  have n: "''ecp_nistz256_ord_sqr_mont'' \<in> canonical_names NonApple"
    by (simp add: canonical_names_def non_apple_branch_def)
  have s1: "expand NonApple ''ecp_nistz256_ord_sqr_mont'' = ''p256_scalar_sqr_rep_mont''"
    by (rule expand_rule) (simp add: non_apple_branch_def)
  have s2: "expand NonApple ''p256_scalar_sqr_rep_mont''
      = ''ring_core_0_17_14__p256_scalar_sqr_rep_mont''"
    by (rule expand_rule) (simp add: non_apple_branch_def)
  note t = expand_fixed_point [of NonApple, THEN conjunct2, THEN conjunct2, THEN conjunct2,
      THEN bspec, OF n]
  from t
  have "expand NonApple (expand NonApple (expand NonApple ''ecp_nistz256_ord_sqr_mont''))
      = expand NonApple (expand NonApple ''ecp_nistz256_ord_sqr_mont'')"
    by (rule conjunct1)
  then have "expand NonApple ''ring_core_0_17_14__p256_scalar_sqr_rep_mont''
      = ''ring_core_0_17_14__p256_scalar_sqr_rep_mont''"
    by (simp only: s1 s2)
  with n s1 s2 show ?thesis by (intro conjI)
qed

end
